theory Spec2Isabelle
  imports Main "HOL-Library.Sublist" "HOL-Library.Product_Lexorder"
begin

section \<open>Python values used by the detector\<close>

text \<open>
  A Python \<open>str\<close> is a sequence of Unicode code points; it is modelled as a list of
  naturals. \<open>str\<close> turns an Isabelle literal into such a list (code point of each
  character), so that inputs can be written as text.
\<close>

type_synonym pystr = "nat list"

definition str :: "string \<Rightarrow> pystr" where
  "str s = map of_char s"

definition NL :: nat where
  "NL = 10"

text \<open>\<open>s.split(sep)\<close> for a one-character separator: never the empty list.\<close>

fun split :: "nat \<Rightarrow> pystr \<Rightarrow> pystr list" where
  "split sep [] = [[]]"
| "split sep (c # cs) =
     (if c = sep then [] # split sep cs
      else (case split sep cs of
              [] \<Rightarrow> [[c]]
            | w # ws \<Rightarrow> (c # w) # ws))"

text \<open>\<open>sub in s\<close> on strings: \<open>sub\<close> occurs as a contiguous piece of \<open>s\<close>.\<close>

fun starts_with :: "pystr \<Rightarrow> pystr \<Rightarrow> bool" where
  "starts_with [] s = True"
| "starts_with (p # ps) [] = False"
| "starts_with (p # ps) (c # cs) = (p = c \<and> starts_with ps cs)"

fun str_in :: "pystr \<Rightarrow> pystr \<Rightarrow> bool" where
  "str_in sub [] = (sub = [])"
| "str_in sub (c # cs) = (starts_with sub (c # cs) \<or> str_in sub cs)"

text \<open>\<open>sep.join(ws)\<close>.\<close>

fun join :: "pystr \<Rightarrow> pystr list \<Rightarrow> pystr" where
  "join sep [] = []"
| "join sep [w] = w"
| "join sep (w # v # ws) = w @ sep @ join sep (v # ws)"

text \<open>
  \<open>s.replace(old, '')\<close> for a non-empty \<open>old\<close>: every occurrence, scanning from the
  left, is removed.
\<close>

function remove_all :: "pystr \<Rightarrow> pystr \<Rightarrow> pystr" where
  "remove_all old [] = []"
| "remove_all old (c # cs) =
     (if old \<noteq> [] \<and> starts_with old (c # cs)
      then remove_all old (drop (length old) (c # cs))
      else c # remove_all old cs)"
  by pat_completeness auto
termination
  by (relation "measure (\<lambda>(old, s). length s)") auto

subsection \<open>Paths\<close>

text \<open>
  A \<open>pathlib\<close> path on POSIX is its tuple of parts; an absolute path has the root
  \<open>/\<close> (or \<open>//\<close>) as its first part.
\<close>

type_synonym path = "pystr list"

definition is_root :: "pystr \<Rightarrow> bool" where
  "is_root c = (c = str ''/'' \<or> c = str ''//'')"

definition has_root :: "path \<Rightarrow> bool" where
  "has_root p = (case p of [] \<Rightarrow> False | c # _ \<Rightarrow> is_root c)"

definition Path :: "pystr \<Rightarrow> path" where
  "Path s =
     (let comps = filter (\<lambda>c. c \<noteq> [] \<and> c \<noteq> str ''.'') (split (of_char CHR ''/'') s);
          root = (if take 2 s = str ''//'' \<and> take 3 s \<noteq> str ''///'' then [str ''//'']
                  else if take 1 s = str ''/'' then [str ''/'']
                  else [])
      in root @ comps)"

definition path_str :: "path \<Rightarrow> pystr" where
  "path_str p =
     (case p of
        [] \<Rightarrow> str ''.''
      | c # cs \<Rightarrow> if is_root c then c @ join (str ''/'') cs else join (str ''/'') (c # cs))"

definition parent :: "path \<Rightarrow> path" where
  "parent p = (if p = [] \<or> (length p = 1 \<and> has_root p) then p else butlast p)"

datatype py_exception = OSError | ValueError | KeyError pystr | OverflowError | RecursionError

text \<open>\<open>p.relative_to(base)\<close>: purely lexical, \<open>ValueError\<close> when \<open>base\<close> does not lead \<open>p\<close>.\<close>

definition relative_to :: "path \<Rightarrow> path \<Rightarrow> py_exception + path" where
  "relative_to p base =
     (if (if base = [] then has_root p else take (length base) p \<noteq> base)
      then Inl ValueError
      else Inr (drop (length base) p))"

text \<open>\<open>p / s\<close>: an absolute right operand replaces the left one.\<close>

definition joinpath :: "path \<Rightarrow> pystr \<Rightarrow> path" where
  "joinpath p s = (if has_root (Path s) then Path s else p @ Path s)"

section \<open>Configuration, log and environment\<close>

record rule_config =
  enabled :: "bool option"
  severity :: "pystr option"
  directories :: "pystr list option"
  patterns :: "pystr list option"

record config =
  kernel_repository :: pystr
  exclude_patterns :: "pystr list"
  max_file_size :: int
  max_concurrent_analyzers :: int
  detection_rules :: "(pystr \<times> rule_config) list"

datatype log_event =
    DebugSkippingLargeFile path
  | WarningCouldNotRead path
  | WarningInvalidRegex pystr pystr
  | ErrorAnalyzing path py_exception

text \<open>
  What the file system answers: \<open>rglob_c d\<close> is \<open>d.rglob("*.c")\<close> in traversal order,
  \<open>path_match p g\<close> is \<open>p.match(g)\<close>, \<open>st_size p\<close> is \<open>p.stat().st_size\<close> or the
  exception \<open>stat\<close> raises, and \<open>file_state\<close> says what opening a path gives
  (\<open>Unreadable\<close> carries the message of the exception that \<open>open\<close> raises).
\<close>

datatype fstate = Missing | Unreadable pystr | File "nat list"

record world =
  rglob_c :: "path \<Rightarrow> path list"
  path_match :: "path \<Rightarrow> pystr \<Rightarrow> bool"
  st_size :: "path \<Rightarrow> py_exception + nat"
  file_state :: "path \<Rightarrow> fstate"

section \<open>File selection\<close>

text \<open>
  The loop of \<open>get_c_files\<close> over the candidates: an excluded candidate is skipped
  before it is \<open>stat\<close>-ed, an exception of \<open>stat\<close> leaves the function, a file larger
  than the cap is logged at debug level and skipped.
\<close>

fun select_files :: "world \<Rightarrow> config \<Rightarrow> path list \<Rightarrow> log_event list \<times> (py_exception + path list)" where
  "select_files w cfg [] = ([], Inr [])"
| "select_files w cfg (file_path # rest) =
     (if list_ex (path_match w file_path) (exclude_patterns cfg) then select_files w cfg rest
      else (case st_size w file_path of
              Inl e \<Rightarrow> ([], Inl e)
            | Inr sz \<Rightarrow>
                if int sz > max_file_size cfg
                then (case select_files w cfg rest of
                        (lg, r) \<Rightarrow> (DebugSkippingLargeFile file_path # lg, r))
                else (case select_files w cfg rest of
                        (lg, Inl e) \<Rightarrow> (lg, Inl e)
                      | (lg, Inr c_files) \<Rightarrow> (lg, Inr (file_path # c_files)))))"

definition get_c_files :: "world \<Rightarrow> config \<Rightarrow> pystr \<Rightarrow> log_event list \<times> (py_exception + path list)" where
  "get_c_files w cfg kernel_path = select_files w cfg (rglob_c w (Path kernel_path))"


section \<open>Reading a file as text\<close>

text \<open>
  \<open>open(file_path, 'r', encoding='utf-8', errors='ignore')\<close>: the bytes are decoded
  as UTF-8, the bytes of a malformed sequence are left out (error handler \<open>ignore\<close>),
  and the line ends \<open>\r\n\<close> and \<open>\r\<close> are read as \<open>\n\<close>. Bytes are naturals below
  256. A malformed sequence is the lead byte with the continuation bytes accepted so
  far; decoding resumes at the byte that did not fit, and a sequence cut off by the end
  of the file is left out whole.
\<close>

definition is_cont :: "nat \<Rightarrow> bool" where
  "is_cont b = (128 \<le> b \<and> b < 192)"

fun utf8_decode_ignore :: "nat list \<Rightarrow> pystr" where
  "utf8_decode_ignore [] = []"
| "utf8_decode_ignore (b # bs) =
     (if b < 128 then b # utf8_decode_ignore bs
      else if b < 194 then utf8_decode_ignore bs
      else if b < 224 then
        (case bs of
           [] \<Rightarrow> []
         | c # r \<Rightarrow>
             if is_cont c then ((b - 192) * 64 + (c - 128)) # utf8_decode_ignore r
             else utf8_decode_ignore bs)
      else if b < 240 then
        (case bs of
           [] \<Rightarrow> []
         | c # r \<Rightarrow>
             if \<not> is_cont c \<or> (if c < 160 then b = 224 else b = 237)
             then utf8_decode_ignore bs
             else (case r of
                     [] \<Rightarrow> []
                   | d # r' \<Rightarrow>
                       if is_cont d
                       then ((b - 224) * 4096 + (c - 128) * 64 + (d - 128)) # utf8_decode_ignore r'
                       else utf8_decode_ignore r))
      else if b < 245 then
        (case bs of
           [] \<Rightarrow> []
         | c # r \<Rightarrow>
             if \<not> is_cont c \<or> (if c < 144 then b = 240 else b = 244)
             then utf8_decode_ignore bs
             else (case r of
                     [] \<Rightarrow> []
                   | d # r' \<Rightarrow>
                       if \<not> is_cont d then utf8_decode_ignore r
                       else (case r' of
                               [] \<Rightarrow> []
                             | e # r'' \<Rightarrow>
                                 if is_cont e
                                 then ((b - 240) * 262144 + (c - 128) * 4096 + (d - 128) * 64 + (e - 128))
                                        # utf8_decode_ignore r''
                                 else utf8_decode_ignore r')))
      else utf8_decode_ignore bs)"

text \<open>The UTF-8 encoding of one code point, and the code points that have one.\<close>

definition is_scalar :: "nat \<Rightarrow> bool" where
  "is_scalar cp = (cp < 55296 \<or> (57344 \<le> cp \<and> cp < 1114112))"

definition utf8_encode_cp :: "nat \<Rightarrow> nat list" where
  "utf8_encode_cp cp =
     (if cp < 128 then [cp]
      else if cp < 2048 then [192 + cp div 64, 128 + cp mod 64]
      else if cp < 65536 then [224 + cp div 4096, 128 + cp div 64 mod 64, 128 + cp mod 64]
      else [240 + cp div 262144, 128 + cp div 4096 mod 64, 128 + cp div 64 mod 64, 128 + cp mod 64])"

definition utf8_encode :: "pystr \<Rightarrow> nat list" where
  "utf8_encode s = concat (map utf8_encode_cp s)"

fun universal_newlines :: "pystr \<Rightarrow> pystr" where
  "universal_newlines [] = []"
| "universal_newlines [c] = (if c = 13 then [NL] else [c])"
| "universal_newlines (c # d # cs) =
     (if c = 13 \<and> d = NL then NL # universal_newlines cs
      else if c = 13 then NL # universal_newlines (d # cs)
      else c # universal_newlines (d # cs))"

text \<open>
  \<open>open\<close> and \<open>read\<close>: a missing or unreadable file raises, anything else yields
  text.
\<close>

definition read_text :: "world \<Rightarrow> path \<Rightarrow> py_exception + pystr" where
  "read_text w p =
     (case file_state w p of
        File bytes \<Rightarrow> Inr (universal_newlines (utf8_decode_ignore bytes))
      | _ \<Rightarrow> Inl OSError)"

section \<open>The regular expression library\<close>

text \<open>
  The \<open>re\<close> module and \<open>str.lower\<close> belong to the Python library, not to the
  detector; the model takes them as given. \<open>re_finditer p s flags\<close> is what
  \<open>list(re.finditer(p, s, flags))\<close> does: it yields the matches, each with its
  \<open>start()\<close> and \<open>group(0)\<close>, or raises \<open>re.error\<close> with a message for a pattern
  that is not a regular expression, or raises another exception (\<open>OverflowError\<close> for a
  repeat count beyond the machine range, \<open>RecursionError\<close> for too deep a nesting).
  \<open>re_search p s flags\<close> says whether \<open>re.search(p, s, flags)\<close> finds a match.
\<close>

datatype re_flag = IGNORECASE | MULTILINE

record re_match =
  m_start :: nat
  m_group0 :: pystr

datatype re_result = Matches "re_match list" | ReError pystr | Raises py_exception

record pylib =
  re_finditer :: "pystr \<Rightarrow> pystr \<Rightarrow> re_flag set \<Rightarrow> re_result"
  re_search :: "pystr \<Rightarrow> pystr \<Rightarrow> re_flag set \<Rightarrow> bool"
  str_lower :: "pystr \<Rightarrow> pystr"

section \<open>Scanning one file\<close>

record finding =
  f_file :: pystr
  f_line :: int
  f_pattern :: pystr
  f_rule :: pystr
  f_severity :: pystr
  f_match :: pystr
  f_context :: "pystr list"

text \<open>\<open>xs[i:j]\<close> with Python's reading of negative and too large indices.\<close>

definition slice_index :: "nat \<Rightarrow> int \<Rightarrow> nat" where
  "slice_index n i = (if i < 0 then nat (max 0 (i + int n)) else min (nat i) n)"

definition py_slice :: "'a list \<Rightarrow> int \<Rightarrow> int \<Rightarrow> 'a list" where
  "py_slice xs i j = drop (slice_index (length xs) i) (take (slice_index (length xs) j) xs)"

definition get_context_lines :: "pystr list \<Rightarrow> int \<Rightarrow> int \<Rightarrow> pystr list" where
  "get_context_lines lines line_num context =
     (let start = max 0 (line_num - context);
          stop = min (int (length lines)) (line_num + context + 1)
      in py_slice lines start stop)"

text \<open>The body of the loop over the matches of one pattern: one finding per match.\<close>

definition make_finding ::
  "pystr \<Rightarrow> pystr list \<Rightarrow> path \<Rightarrow> pystr \<Rightarrow> rule_config \<Rightarrow> pystr \<Rightarrow> re_match \<Rightarrow> finding" where
  "make_finding content lines file_path rule_name rule_cfg pattern m =
     (let line_num = int (count_list (take (m_start m) content) NL) + 1;
          context_lines = get_context_lines lines (line_num - 1) 3
      in \<lparr> f_file = path_str file_path,
           f_line = line_num,
           f_pattern = pattern,
           f_rule = rule_name,
           f_severity = (case severity rule_cfg of None \<Rightarrow> str ''medium'' | Some s \<Rightarrow> s),
           f_match = m_group0 m,
           f_context = context_lines \<rparr>)"

text \<open>
  The body of the loop over the patterns of one rule, with its \<open>try\<close>: the matches of
  one pattern become findings; \<open>re.error\<close> is caught, the pattern is logged and yields
  no finding; any other exception is not caught here.
\<close>

definition check_pattern ::
  "pylib \<Rightarrow> pystr \<Rightarrow> pystr list \<Rightarrow> path \<Rightarrow> pystr \<Rightarrow> rule_config \<Rightarrow> pystr
   \<Rightarrow> log_event list \<times> (py_exception + finding list)" where
  "check_pattern lib content lines file_path rule_name rule_cfg pattern =
     (case re_finditer lib pattern content {IGNORECASE, MULTILINE} of
        Matches matches \<Rightarrow>
          ([], Inr (map (make_finding content lines file_path rule_name rule_cfg pattern) matches))
      | ReError e \<Rightarrow> ([WarningInvalidRegex pattern e], Inr [])
      | Raises e \<Rightarrow> ([], Inl e))"

text \<open>
  The loop over the patterns: after a pattern, the loop goes on with the next one; an
  exception that is not caught ends it.
\<close>

fun check_patterns ::
  "pylib \<Rightarrow> pystr \<Rightarrow> pystr list \<Rightarrow> path \<Rightarrow> pystr \<Rightarrow> rule_config \<Rightarrow> pystr list
   \<Rightarrow> log_event list \<times> (py_exception + finding list)" where
  "check_patterns lib content lines file_path rule_name rule_cfg [] = ([], Inr [])"
| "check_patterns lib content lines file_path rule_name rule_cfg (pattern # rest) =
     (case check_pattern lib content lines file_path rule_name rule_cfg pattern of
        (lg, Inl e) \<Rightarrow> (lg, Inl e)
      | (lg, Inr fs) \<Rightarrow>
          (case check_patterns lib content lines file_path rule_name rule_cfg rest of
             (lg', Inl e) \<Rightarrow> (lg @ lg', Inl e)
           | (lg', Inr fs') \<Rightarrow> (lg @ lg', Inr (fs @ fs'))))"

text \<open>
  The directory of the file relative to the directory named after the configured
  repository: the last segment of the URL without \<open>.git\<close>.
\<close>

definition repository_dir :: "config \<Rightarrow> path" where
  "repository_dir cfg =
     Path (remove_all (str ''.git'') (last (split (of_char CHR ''/'') (kernel_repository cfg))))"

definition file_dir_of :: "config \<Rightarrow> path \<Rightarrow> py_exception + pystr" where
  "file_dir_of cfg file_path =
     (case relative_to (parent file_path) (repository_dir cfg) of
        Inl e \<Rightarrow> Inl e
      | Inr d \<Rightarrow> Inr (path_str d))"

definition rule_enabled :: "rule_config \<Rightarrow> bool" where
  "rule_enabled rule_cfg = (case enabled rule_cfg of None \<Rightarrow> True | Some b \<Rightarrow> b)"

definition in_target_directories :: "rule_config \<Rightarrow> pystr \<Rightarrow> bool" where
  "in_target_directories rule_cfg file_dir =
     list_ex (\<lambda>target_dir. str_in target_dir file_dir)
       (case directories rule_cfg of None \<Rightarrow> [] | Some ds \<Rightarrow> ds)"

definition rule_patterns :: "rule_config \<Rightarrow> pystr list" where
  "rule_patterns rule_cfg = (case patterns rule_cfg of None \<Rightarrow> [] | Some ps \<Rightarrow> ps)"

text \<open>
  The loop over the rules. A disabled rule is skipped before the directory of the file is
  computed; \<open>relative_to\<close> raises \<open>ValueError\<close> out of the function for a file that
  is not under the repository directory, and so does an exception the pattern loop did not
  catch. The findings collected so far are lost with the exception; the log stays.
\<close>

fun check_rules ::
  "pylib \<Rightarrow> config \<Rightarrow> pystr \<Rightarrow> pystr list \<Rightarrow> path \<Rightarrow> (pystr \<times> rule_config) list
   \<Rightarrow> log_event list \<times> (py_exception + finding list)" where
  "check_rules lib cfg content lines file_path [] = ([], Inr [])"
| "check_rules lib cfg content lines file_path ((rule_name, rule_cfg) # rest) =
     (if \<not> rule_enabled rule_cfg then check_rules lib cfg content lines file_path rest
      else (case file_dir_of cfg file_path of
              Inl e \<Rightarrow> ([], Inl e)
            | Inr file_dir \<Rightarrow>
                if \<not> in_target_directories rule_cfg file_dir
                then check_rules lib cfg content lines file_path rest
                else (case check_patterns lib content lines file_path rule_name rule_cfg
                             (rule_patterns rule_cfg) of
                        (lg, Inl e) \<Rightarrow> (lg, Inl e)
                      | (lg, Inr fs) \<Rightarrow>
                          (case check_rules lib cfg content lines file_path rest of
                             (lg', Inl e) \<Rightarrow> (lg @ lg', Inl e)
                           | (lg', Inr fs') \<Rightarrow> (lg @ lg', Inr (fs @ fs'))))))"

definition analyze_file ::
  "pylib \<Rightarrow> world \<Rightarrow> config \<Rightarrow> path \<Rightarrow> log_event list \<times> (py_exception + finding list)" where
  "analyze_file lib w cfg file_path =
     (case read_text w file_path of
        Inl e \<Rightarrow> ([WarningCouldNotRead file_path], Inr [])
      | Inr content \<Rightarrow>
          check_rules lib cfg content (split NL content) file_path (detection_rules cfg))"

section \<open>Scanning the corpus\<close>

text \<open>
  A Python \<open>dict\<close> with its insertion order is an association list; \<open>dict_set\<close> is
  \<open>d[k] = v\<close>, and \<open>map_of d k\<close> looks a key up.
\<close>

fun dict_set :: "('k \<times> 'v) list \<Rightarrow> 'k \<Rightarrow> 'v \<Rightarrow> ('k \<times> 'v) list" where
  "dict_set [] k v = [(k, v)]"
| "dict_set ((k', v') # d) k v = (if k' = k then (k', v) # d else (k', v') # dict_set d k v)"

record statistics =
  total_files :: nat
  analyzed_files :: nat
  files_with_findings :: nat
  total_findings :: nat
  findings_by_severity :: "(pystr \<times> nat) list"
  findings_by_rule :: "(pystr \<times> nat) list"

definition initial_statistics :: "path list \<Rightarrow> statistics" where
  "initial_statistics c_files =
     \<lparr> total_files = length c_files,
       analyzed_files = 0,
       files_with_findings = 0,
       total_findings = 0,
       findings_by_severity =
         [(str ''critical'', 0), (str ''high'', 0), (str ''medium'', 0), (str ''low'', 0)],
       findings_by_rule = [] \<rparr>"

text \<open>
  The loop that counts the findings of one file by severity and by rule. A severity that
  is not a key of \<open>findings_by_severity\<close> raises \<open>KeyError\<close>; the counts made so far
  stay.
\<close>

fun count_findings :: "statistics \<Rightarrow> finding list \<Rightarrow> statistics \<times> py_exception option" where
  "count_findings st [] = (st, None)"
| "count_findings st (f # fs) =
     (case map_of (findings_by_severity st) (f_severity f) of
        None \<Rightarrow> (st, Some (KeyError (f_severity f)))
      | Some n \<Rightarrow>
          count_findings
            (st\<lparr> findings_by_severity := dict_set (findings_by_severity st) (f_severity f) (n + 1),
                 findings_by_rule :=
                   dict_set (findings_by_rule st) (f_rule f)
                     ((case map_of (findings_by_rule st) (f_rule f) of None \<Rightarrow> 0 | Some k \<Rightarrow> k) + 1) \<rparr>)
            fs)"

record run_state =
  all_findings :: "finding list"
  stats :: statistics
  run_log :: "log_event list"

text \<open>
  The body of the loop over the completed futures: the result of one file is folded into
  the findings and the statistics; an exception of the analysis or of the counting is
  logged.
\<close>

definition collect_result :: "run_state \<Rightarrow> path \<Rightarrow> py_exception + finding list \<Rightarrow> run_state" where
  "collect_result s file_path outcome =
     (case outcome of
        Inl e \<Rightarrow> s\<lparr> run_log := run_log s @ [ErrorAnalyzing file_path e] \<rparr>
      | Inr fs \<Rightarrow>
          (let s1 = s\<lparr> all_findings := all_findings s @ fs,
                       stats := (stats s)\<lparr> analyzed_files := analyzed_files (stats s) + 1 \<rparr> \<rparr>
           in if fs = [] then s1
              else (case count_findings
                           ((stats s1)\<lparr> files_with_findings := files_with_findings (stats s1) + 1,
                                        total_findings := total_findings (stats s1) + length fs \<rparr>)
                           fs of
                      (st, None) \<Rightarrow> s1\<lparr> stats := st \<rparr>
                    | (st, Some e) \<Rightarrow>
                        s1\<lparr> stats := st, run_log := run_log s1 @ [ErrorAnalyzing file_path e] \<rparr>)))"

fun collect_results :: "pylib \<Rightarrow> world \<Rightarrow> config \<Rightarrow> run_state \<Rightarrow> path list \<Rightarrow> run_state" where
  "collect_results lib w cfg s [] = s"
| "collect_results lib w cfg s (file_path # rest) =
     (case analyze_file lib w cfg file_path of
        (lg, outcome) \<Rightarrow>
          collect_results lib w cfg
            (collect_result (s\<lparr> run_log := run_log s @ lg \<rparr>) file_path outcome) rest)"

record summary =
  total_files_analyzed :: nat
  files_with_issues :: nat
  total_issues_found :: nat
  critical_issues :: nat
  high_priority_issues :: nat
  medium_priority_issues :: nat
  low_priority_issues :: nat

definition lookup :: "(pystr \<times> nat) list \<Rightarrow> pystr \<Rightarrow> py_exception + nat" where
  "lookup d k = (case map_of d k of None \<Rightarrow> Inl (KeyError k) | Some v \<Rightarrow> Inr v)"

definition make_summary :: "statistics \<Rightarrow> py_exception + summary" where
  "make_summary st =
     (case lookup (findings_by_severity st) (str ''critical'') of Inl e \<Rightarrow> Inl e | Inr c \<Rightarrow>
      case lookup (findings_by_severity st) (str ''high'') of Inl e \<Rightarrow> Inl e | Inr h \<Rightarrow>
      case lookup (findings_by_severity st) (str ''medium'') of Inl e \<Rightarrow> Inl e | Inr m \<Rightarrow>
      case lookup (findings_by_severity st) (str ''low'') of Inl e \<Rightarrow> Inl e | Inr l \<Rightarrow>
        Inr \<lparr> total_files_analyzed = analyzed_files st,
              files_with_issues = files_with_findings st,
              total_issues_found = total_findings st,
              critical_issues = c,
              high_priority_issues = h,
              medium_priority_issues = m,
              low_priority_issues = l \<rparr>)"

record report =
  findings :: "finding list"
  statistics :: statistics
  summary :: summary

text \<open>
  \<open>analyze_kernel\<close>. The worker pool hands the results back in the order the files
  complete: \<open>as_completed\<close> is that order, any rearrangement of the submitted files. An
  exception of \<open>get_c_files\<close> and the \<open>ValueError\<close> of a pool without workers leave
  the function.
\<close>

definition analyze_kernel ::
  "pylib \<Rightarrow> world \<Rightarrow> config \<Rightarrow> (path list \<Rightarrow> path list) \<Rightarrow> pystr
   \<Rightarrow> log_event list \<times> (py_exception + report)" where
  "analyze_kernel lib w cfg as_completed kernel_path =
     (case get_c_files w cfg kernel_path of
        (lg, Inl e) \<Rightarrow> (lg, Inl e)
      | (lg, Inr c_files) \<Rightarrow>
          if max_concurrent_analyzers cfg \<le> 0 then (lg, Inl ValueError)
          else (let s = collect_results lib w cfg
                          \<lparr> all_findings = [], stats = initial_statistics c_files, run_log = lg \<rparr>
                          (as_completed c_files)
                in (case make_summary (stats s) of
                      Inl e \<Rightarrow> (run_log s, Inl e)
                    | Inr sm \<Rightarrow>
                        (run_log s,
                         Inr \<lparr> findings = all_findings s, statistics = stats s, summary = sm \<rparr>))))"

section \<open>Classifying the concurrency findings\<close>

record category_config =
  c_patterns :: "pystr list"
  c_description :: pystr

definition concurrency_patterns :: "(pystr \<times> category_config) list" where
  "concurrency_patterns =
     [(str ''race_condition'',
       \<lparr> c_patterns = [str ''race.*condition'', str ''race.*between'', str ''concurrent.*access'',
                        str ''parallel.*access'', str ''thread.*safety'', str ''atomic.*operation'',
                        str ''data.*race''],
         c_description = str ''Race conditions between concurrent threads/processes'' \<rparr>),
      (str ''deadlock'',
       \<lparr> c_patterns = [str ''deadlock'', str ''lock.*order'', str ''circular.*dependency'',
                        str ''lock.*inversion'', str ''priority.*inversion''],
         c_description = str ''Deadlock scenarios and lock ordering issues'' \<rparr>),
      (str ''missing_lock'',
       \<lparr> c_patterns = [str ''missing.*lock'', str ''no.*lock'', str ''unprotected.*access'',
                        str ''without.*lock'', str ''lock.*missing''],
         c_description = str ''Missing locks for shared resource protection'' \<rparr>),
      (str ''double_lock'',
       \<lparr> c_patterns = [str ''double.*lock'', str ''reentrant.*lock'', str ''lock.*twice'',
                        str ''duplicate.*lock''],
         c_description = str ''Double locking or reentrant lock issues'' \<rparr>),
      (str ''spinlock_issue'',
       \<lparr> c_patterns = [str ''spinlock'', str ''spin.*lock'', str ''busy.*wait'', str ''cpu.*spin''],
         c_description = str ''Spinlock-related issues and CPU spinning'' \<rparr>),
      (str ''mutex_issue'',
       \<lparr> c_patterns = [str ''mutex'', str ''semaphore'', str ''rwlock'', str ''read.*write.*lock''],
         c_description = str ''Mutex, semaphore, and read-write lock issues'' \<rparr>),
      (str ''memory_barrier'',
       \<lparr> c_patterns = [str ''memory.*barrier'', str ''barrier'', str ''fence'',
                        str ''ordering.*guarantee''],
         c_description = str ''Memory ordering and barrier issues'' \<rparr>),
      (str ''atomic_operation'',
       \<lparr> c_patterns = [str ''atomic.*'', str ''cmpxchg'', str ''xchg'', str ''atomic.*read'',
                        str ''atomic.*write''],
         c_description = str ''Atomic operation issues'' \<rparr>),
      (str ''irq_lock'',
       \<lparr> c_patterns = [str ''irq.*lock'', str ''interrupt.*lock'', str ''irq.*save'',
                        str ''irq.*restore''],
         c_description = str ''Interrupt-related locking issues'' \<rparr>),
      (str ''rcu_issue'',
       \<lparr> c_patterns = [str ''rcu'', str ''read.*copy.*update'', str ''rcu.*lock'', str ''rcu.*unlock''],
         c_description = str ''Read-Copy Update (RCU) related issues'' \<rparr>)]"

record classified_issue =
  ci_file :: pystr
  ci_line :: int
  ci_match :: pystr
  ci_context :: "pystr list"
  ci_pattern :: pystr
  ci_description :: pystr
  ci_code_snippet :: "pystr list option"

text \<open>\<open>load_results\<close> keeps the findings of the rule \<open>concurrency\<close>.\<close>

definition load_results :: "finding list \<Rightarrow> finding list" where
  "load_results data_findings = filter (\<lambda>issue. f_rule issue = str ''concurrency'') data_findings"

text \<open>
  The two nested loops with their \<open>break\<close>s: the categories in the order of the table,
  the patterns of a category in their order, stopping at the first pattern found in the
  lower-cased matched text. The result is the category, the pattern and the description,
  or \<open>None\<close> when \<open>matched\<close> stays false.
\<close>

fun first_category ::
  "pylib \<Rightarrow> pystr \<Rightarrow> (pystr \<times> category_config) list \<Rightarrow> (pystr \<times> pystr \<times> pystr) option" where
  "first_category lib issue_text [] = None"
| "first_category lib issue_text ((category, cfg) # rest) =
     (case find (\<lambda>pattern. re_search lib pattern issue_text {IGNORECASE}) (c_patterns cfg) of
        Some pattern \<Rightarrow> Some (category, pattern, c_description cfg)
      | None \<Rightarrow> first_category lib issue_text rest)"

definition classify_issue ::
  "pylib \<Rightarrow> (pystr \<times> category_config) list \<Rightarrow> finding \<Rightarrow> pystr \<times> classified_issue" where
  "classify_issue lib table issue =
     (case first_category lib (str_lower lib (f_match issue)) table of
        Some (category, pattern, description) \<Rightarrow>
          (category,
           \<lparr> ci_file = f_file issue, ci_line = f_line issue, ci_match = f_match issue,
             ci_context = f_context issue, ci_pattern = pattern, ci_description = description,
             ci_code_snippet = None \<rparr>)
      | None \<Rightarrow>
          (str ''general_concurrency'',
           \<lparr> ci_file = f_file issue, ci_line = f_line issue, ci_match = f_match issue,
             ci_context = f_context issue, ci_pattern = f_pattern issue,
             ci_description = str ''General concurrency issues'', ci_code_snippet = None \<rparr>))"

text \<open>\<open>classified_issues[category].append(x)\<close> on the \<open>defaultdict(list)\<close>.\<close>

fun dict_append :: "('k \<times> 'v list) list \<Rightarrow> 'k \<Rightarrow> 'v \<Rightarrow> ('k \<times> 'v list) list" where
  "dict_append [] k v = [(k, [v])]"
| "dict_append ((k', vs) # d) k v =
     (if k' = k then (k', vs @ [v]) # d else (k', vs) # dict_append d k v)"

fun classify_loop ::
  "pylib \<Rightarrow> (pystr \<times> category_config) list \<Rightarrow> (pystr \<times> classified_issue list) list
   \<Rightarrow> finding list \<Rightarrow> (pystr \<times> classified_issue list) list" where
  "classify_loop lib table classified [] = classified"
| "classify_loop lib table classified (issue # rest) =
     (case classify_issue lib table issue of
        (category, entry) \<Rightarrow> classify_loop lib table (dict_append classified category entry) rest)"

definition classify_concurrency_issues ::
  "pylib \<Rightarrow> finding list \<Rightarrow> (pystr \<times> classified_issue list) list" where
  "classify_concurrency_issues lib concurrency_issues =
     classify_loop lib concurrency_patterns [] concurrency_issues"

section \<open>Code snippets\<close>

text \<open>\<open>f.readlines()\<close>: the lines with their line ends.\<close>

fun readlines :: "pystr \<Rightarrow> pystr list" where
  "readlines [] = []"
| "readlines (c # cs) =
     (if c = NL then [c] # readlines cs
      else (case readlines cs of
              [] \<Rightarrow> [[c]]
            | l # ls \<Rightarrow> (c # l) # ls))"

text \<open>\<open>s.rstrip()\<close>: the white space of \<open>str.isspace\<close> is taken off the right end.\<close>

definition isspace :: "nat \<Rightarrow> bool" where
  "isspace c =
     ((9 \<le> c \<and> c \<le> 13) \<or> (28 \<le> c \<and> c \<le> 32) \<or> c = 133 \<or> c = 160 \<or> c = 5760 \<or>
      (8192 \<le> c \<and> c \<le> 8202) \<or> c = 8232 \<or> c = 8233 \<or> c = 8239 \<or> c = 8287 \<or> c = 12288)"

definition rstrip :: "pystr \<Rightarrow> pystr" where
  "rstrip s = rev (dropWhile isspace (rev s))"

text \<open>The format \<open>{n:4d}\<close>: decimal digits, padded with blanks on the left to four places.\<close>

function digits :: "nat \<Rightarrow> pystr" where
  "digits n = (if n < 10 then [48 + n] else digits (n div 10) @ [48 + n mod 10])"
  by pat_completeness auto
termination
  by (relation "measure id") auto

definition format_4d :: "nat \<Rightarrow> pystr" where
  "format_4d n = replicate (4 - length (digits n)) 32 @ digits n"

definition snippet_line :: "pystr list \<Rightarrow> int \<Rightarrow> nat \<Rightarrow> pystr" where
  "snippet_line lines line_num i =
     (if int i = line_num then str ''>>> '' else str ''    '')
       @ format_4d (i + 1) @ str '': '' @ rstrip (lines ! i)"

definition code_snippet_of :: "pystr list \<Rightarrow> int \<Rightarrow> pystr list" where
  "code_snippet_of lines line =
     (let line_num = line - 1;
          start = max 0 (line_num - 5);
          stop = min (int (length lines)) (line_num + 6)
      in map (snippet_line lines line_num) [nat start ..< nat stop])"

definition snippet_for :: "world \<Rightarrow> path \<Rightarrow> classified_issue \<Rightarrow> pystr list" where
  "snippet_for w kernel_dir issue =
     (let file_path = joinpath kernel_dir (ci_file issue)
      in case file_state w file_path of
           Missing \<Rightarrow> [str ''File not found: '' @ path_str file_path]
         | Unreadable e \<Rightarrow> [str ''Error reading file: '' @ e]
         | File bytes \<Rightarrow>
             code_snippet_of (readlines (universal_newlines (utf8_decode_ignore bytes)))
               (ci_line issue))"

definition extract_code_snippets ::
  "world \<Rightarrow> pystr \<Rightarrow> (pystr \<times> classified_issue list) list
   \<Rightarrow> (pystr \<times> classified_issue list) list" where
  "extract_code_snippets w kernel_path classified =
     map (\<lambda>(category, issues).
            (category,
             map (\<lambda>issue. issue\<lparr> ci_code_snippet := Some (snippet_for w (Path kernel_path) issue) \<rparr>)
               issues))
       classified"

section \<open>Provenance of the findings of one file\<close>





text \<open>The lines \<open>a\<close> through \<open>b\<close> of a file, counted from 1, both ends included.\<close>

definition lines_from_through :: "pystr list \<Rightarrow> int \<Rightarrow> int \<Rightarrow> pystr list" where
  "lines_from_through lines a b = map (\<lambda>i. lines ! (i - 1)) [nat a ..< nat b + 1]"

section \<open>A stand-in for the library, and example inputs\<close>

text \<open>
  The examples need a library to run with. \<open>sample_lib\<close> answers as \<open>re\<close> does on the
  patterns the examples use: a pattern of plain words is found wherever its text occurs,
  without regard to case, from left to right and without overlap; the pattern \<open>(\<close> is
  rejected with \<open>re.error\<close>; the pattern \<open>a{4294967296}\<close> raises
  \<open>OverflowError\<close>; a pattern of plain words joined by \<open>.*\<close> is searched for within
  one line.
  \<open>ascii_lower\<close> is \<open>str.lower\<close> on ASCII text.
\<close>

definition ascii_lower :: "pystr \<Rightarrow> pystr" where
  "ascii_lower s = map (\<lambda>c. if 65 \<le> c \<and> c \<le> 90 then c + 32 else c) s"

text \<open>
  \<open>find_literal p low s pos\<close>: the occurrences of the lower-cased pattern \<open>p\<close> in the
  lower-cased text \<open>low\<close>, each with the piece of the text \<open>s\<close> itself that it covers.
\<close>

function find_literal :: "pystr \<Rightarrow> pystr \<Rightarrow> pystr \<Rightarrow> nat \<Rightarrow> re_match list" where
  "find_literal p [] s pos = []"
| "find_literal p (c # cs) s pos =
     (if p \<noteq> [] \<and> starts_with p (c # cs)
      then \<lparr> m_start = pos, m_group0 = take (length p) s \<rparr>
             # find_literal p (drop (length p) (c # cs)) (drop (length p) s) (pos + length p)
      else find_literal p cs (drop 1 s) (pos + 1))"
  by pat_completeness auto
termination
  by (relation "measure (\<lambda>(p, low, s, pos). length low)") auto

definition paren_message :: pystr where
  "paren_message = str ''missing ), unterminated subpattern at position 0''"

definition sample_finditer :: "pystr \<Rightarrow> pystr \<Rightarrow> re_flag set \<Rightarrow> re_result" where
  "sample_finditer p s flags =
     (if p = str ''('' then ReError paren_message
      else if p = str ''a{4294967296}'' then Raises OverflowError
      else Matches (find_literal (ascii_lower p) (ascii_lower s) s 0))"

fun split_dotstar :: "pystr \<Rightarrow> pystr list" where
  "split_dotstar [] = [[]]"
| "split_dotstar [c] = [[c]]"
| "split_dotstar (c # d # cs) =
     (if c = 46 \<and> d = 42 then [] # split_dotstar cs
      else (case split_dotstar (d # cs) of
              [] \<Rightarrow> [[c]]
            | g # gs \<Rightarrow> (c # g) # gs))"

function find_rest :: "pystr list \<Rightarrow> pystr \<Rightarrow> bool" where
  "find_rest [] s = True"
| "find_rest (g # gs) [] = (g = [] \<and> find_rest gs [])"
| "find_rest (g # gs) (c # cs) =
     ((starts_with g (c # cs) \<and> find_rest gs (drop (length g) (c # cs)))
      \<or> (c \<noteq> NL \<and> find_rest (g # gs) cs))"
  by pat_completeness auto
termination
  by (relation "measure (\<lambda>(gs, s). length gs + length s)") auto

fun search_from :: "pystr list \<Rightarrow> pystr \<Rightarrow> bool" where
  "search_from gs [] = list_all (\<lambda>g. g = []) gs"
| "search_from gs (c # cs) =
     ((case gs of
         [] \<Rightarrow> True
       | g # gs' \<Rightarrow> starts_with g (c # cs) \<and> find_rest gs' (drop (length g) (c # cs)))
      \<or> search_from gs cs)"

definition sample_search :: "pystr \<Rightarrow> pystr \<Rightarrow> re_flag set \<Rightarrow> bool" where
  "sample_search p s flags = search_from (split_dotstar (ascii_lower p)) (ascii_lower s)"

definition sample_lib :: pylib where
  "sample_lib = \<lparr> re_finditer = sample_finditer, re_search = sample_search, str_lower = ascii_lower \<rparr>"

text \<open>
  A corpus of three files under \<open>linux\<close>: \<open>kernel/foo.c\<close>, exactly as large as
  the size cap, with an invalid byte (255) inside the word \<open>unlock\<close> of its second
  line; \<open>mm/big.c\<close>, one byte over the cap; and \<open>kernel/gone.c\<close>, listed but no
  longer there when it is opened.
\<close>

definition foo_c :: path where
  "foo_c = [str ''linux'', str ''kernel'', str ''foo.c'']"

definition big_c :: path where
  "big_c = [str ''linux'', str ''mm'', str ''big.c'']"

definition gone_c :: path where
  "gone_c = [str ''linux'', str ''kernel'', str ''gone.c'']"

definition foo_bytes :: "nat list" where
  "foo_bytes = str ''int x;'' @ [10] @ str ''un'' @ [255] @ str ''lock(); /* Lock race condition */''
                 @ [13, 10] @ str ''kfree(p);''"

definition sample_world :: world where
  "sample_world =
     \<lparr> rglob_c = (\<lambda>d. if d = [str ''linux''] then [foo_c, big_c, gone_c] else []),
       path_match = (\<lambda>p g. False),
       st_size = (\<lambda>p. if p = foo_c then Inr 54
                       else if p = big_c then Inr 55
                       else if p = gone_c then Inr 7
                       else Inl OSError),
       file_state = (\<lambda>p. if p = foo_c then File foo_bytes
                          else if p = big_c then File (replicate 55 32)
                          else Missing) \<rparr>"

definition concurrency_rule :: rule_config where
  "concurrency_rule =
     \<lparr> enabled = Some True, severity = Some (str ''high''),
       directories = Some [str ''kernel''],
       patterns = Some [str ''('', str ''lock'', str ''race condition''] \<rparr>"

definition style_rule :: rule_config where
  "style_rule =
     \<lparr> enabled = Some False, severity = Some (str ''low''),
       directories = Some [str ''kernel''], patterns = Some [str ''int''] \<rparr>"

definition memory_rule :: rule_config where
  "memory_rule =
     \<lparr> enabled = None, severity = None,
       directories = Some [str ''mm'', str ''kernel''], patterns = Some [str ''kfree''] \<rparr>"

definition sample_config :: config where
  "sample_config =
     \<lparr> kernel_repository = str ''https://github.com/torvalds/linux.git'',
       exclude_patterns = [str ''*/Documentation/*''],
       max_file_size = 54,
       max_concurrent_analyzers = 4,
       detection_rules =
         [(str ''concurrency'', concurrency_rule), (str ''style'', style_rule),
          (str ''memory'', memory_rule)] \<rparr>"

text \<open>What scanning \<open>kernel/foo.c\<close> gives: its text, its lines and its four findings.\<close>

definition foo_text :: pystr where
  "foo_text = str ''int x;'' @ [10] @ str ''unlock(); /* Lock race condition */'' @ [10]
                @ str ''kfree(p);''"

definition foo_lines :: "pystr list" where
  "foo_lines = [str ''int x;'', str ''unlock(); /* Lock race condition */'', str ''kfree(p);'']"

definition foo_finding :: "int \<Rightarrow> pystr \<Rightarrow> pystr \<Rightarrow> pystr \<Rightarrow> pystr \<Rightarrow> finding" where
  "foo_finding line pattern rule sev matched =
     \<lparr> f_file = str ''linux/kernel/foo.c'', f_line = line, f_pattern = pattern, f_rule = rule,
       f_severity = sev, f_match = matched, f_context = foo_lines \<rparr>"

definition foo_findings :: "finding list" where
  "foo_findings =
     [foo_finding 2 (str ''lock'') (str ''concurrency'') (str ''high'') (str ''lock''),
      foo_finding 2 (str ''lock'') (str ''concurrency'') (str ''high'') (str ''Lock''),
      foo_finding 2 (str ''race condition'') (str ''concurrency'') (str ''high'')
        (str ''race condition''),
      foo_finding 3 (str ''kfree'') (str ''memory'') (str ''medium'') (str ''kfree'')]"

text \<open>
  For stating what an omitted severity means: \<open>fill_severity\<close> writes the severity the
  findings of a rule get into the rule.
\<close>

definition fill_severity :: "rule_config \<Rightarrow> rule_config" where
  "fill_severity rc = rc\<lparr> severity := Some (case severity rc of None \<Rightarrow> str ''medium'' | Some s \<Rightarrow> s) \<rparr>"

text \<open>
  The same tree checked out at \<open>/data/linux\<close>: the corpus root is no longer the
  directory named after the repository.
\<close>

definition moved_foo_c :: path where
  "moved_foo_c = [str ''/'', str ''data'', str ''linux'', str ''kernel'', str ''foo.c'']"

definition moved_world :: world where
  "moved_world =
     \<lparr> rglob_c = (\<lambda>d. if d = [str ''/'', str ''data'', str ''linux''] then [moved_foo_c] else []),
       path_match = (\<lambda>p g. False),
       st_size = (\<lambda>p. if p = moved_foo_c then Inr 54 else Inl OSError),
       file_state = (\<lambda>p. if p = moved_foo_c then File foo_bytes else Missing) \<rparr>"

text \<open>
  Two variants of the rule set: one whose rule \<open>concurrency\<close> has the pattern
  \<open>a{4294967296}\<close> between its two word patterns, and one with the word patterns alone.
\<close>

definition overflow_config :: config where
  "overflow_config =
     sample_config\<lparr> detection_rules :=
       [(str ''concurrency'',
         concurrency_rule\<lparr> patterns :=
           Some [str ''lock'', str ''a{4294967296}'', str ''race condition''] \<rparr>),
        (str ''style'', style_rule), (str ''memory'', memory_rule)] \<rparr>"

definition plain_config :: config where
  "plain_config =
     sample_config\<lparr> detection_rules :=
       [(str ''concurrency'',
         concurrency_rule\<lparr> patterns := Some [str ''lock'', str ''race condition''] \<rparr>),
        (str ''style'', style_rule), (str ''memory'', memory_rule)] \<rparr>"

section \<open>File selection: the size cap\<close>

lemma select_files_mem:
  "select_files w cfg ps = (lg, Inr c_files) \<Longrightarrow>
   set c_files =
     {p \<in> set ps. \<not> list_ex (path_match w p) (exclude_patterns cfg) \<and>
        (\<exists>sz. st_size w p = Inr sz \<and> int sz \<le> max_file_size cfg)}"
proof (induction ps arbitrary: lg c_files)
  case Nil
  then show ?case by simp
next
  case (Cons p ps)
  show ?case
  proof (cases "list_ex (path_match w p) (exclude_patterns cfg)")
    case True
    with Cons show ?thesis by auto
  next
    case False
    from Cons.prems False obtain sz where sz: "st_size w p = Inr sz"
      by (cases "st_size w p") auto
    obtain lg' r where rec: "select_files w cfg ps = (lg', r)"
      by (cases "select_files w cfg ps")
    show ?thesis
    proof (cases "int sz > max_file_size cfg")
      case True
      with Cons.prems False sz rec have "r = Inr c_files" by simp
      with rec Cons.IH have "set c_files =
        {p \<in> set ps. \<not> list_ex (path_match w p) (exclude_patterns cfg) \<and>
          (\<exists>sz. st_size w p = Inr sz \<and> int sz \<le> max_file_size cfg)}" by blast
      with True sz show ?thesis by auto
    next
      case le: False
      with Cons.prems False sz rec obtain cs where cs: "r = Inr cs" "c_files = p # cs"
        by (cases r) auto
      with rec Cons.IH have "set cs =
        {p \<in> set ps. \<not> list_ex (path_match w p) (exclude_patterns cfg) \<and>
          (\<exists>sz. st_size w p = Inr sz \<and> int sz \<le> max_file_size cfg)}" by blast
      with le sz cs False show ?thesis by auto
    qed
  qed
qed

text \<open>
  C8. The size cap of \<open>get_c_files\<close> is inclusive: whenever the selection returns, a
  candidate \<open>.c\<close> file that matches no exclude pattern is among the files to scan if
  its size is exactly \<open>max_file_size\<close>, and is not among them if its size is
  \<open>max_file_size + 1\<close>.
\<close>

theorem get_c_files_size_cap:
  assumes "get_c_files w cfg kernel_path = (lg, Inr c_files)"
    and "file_path \<in> set (rglob_c w (Path kernel_path))"
    and "\<not> list_ex (path_match w file_path) (exclude_patterns cfg)"
    and "st_size w file_path = Inr sz"
  shows "(int sz = max_file_size cfg \<longrightarrow> file_path \<in> set c_files) \<and>
         (int sz = max_file_size cfg + 1 \<longrightarrow> file_path \<notin> set c_files)"
  using select_files_mem [OF assms(1) [unfolded get_c_files_def]] assms(2-4) by auto

lemma sample_paths:
  "foo_c \<noteq> big_c" "foo_c \<noteq> gone_c" "big_c \<noteq> gone_c"
  "gone_c \<noteq> foo_c" "gone_c \<noteq> big_c" "big_c \<noteq> foo_c"
  by (simp_all add: foo_c_def big_c_def gone_c_def str_def)

lemma sample_files:
  "get_c_files sample_world sample_config (str ''linux'')
     = ([DebugSkippingLargeFile big_c], Inr [foo_c, gone_c])"
  by (simp add: get_c_files_def sample_world_def sample_config_def sample_paths Path_def
      str_def)

theorem get_c_files_size_cap_witness:
  "get_c_files sample_world sample_config (str ''linux'')
     = ([DebugSkippingLargeFile big_c], Inr [foo_c, gone_c]) \<and>
   st_size sample_world foo_c = Inr 54 \<and> st_size sample_world big_c = Inr 55 \<and>
   max_file_size sample_config = 54 \<and>
   foo_c \<in> set [foo_c, gone_c] \<and> big_c \<notin> set [foo_c, gone_c]"
proof -
  have cands: "foo_c \<in> set (rglob_c sample_world (Path (str ''linux'')))"
    "big_c \<in> set (rglob_c sample_world (Path (str ''linux'')))"
    by (simp_all add: sample_world_def Path_def str_def)
  have excl: "\<not> list_ex (path_match sample_world foo_c) (exclude_patterns sample_config)"
    "\<not> list_ex (path_match sample_world big_c) (exclude_patterns sample_config)"
    by (simp_all add: sample_world_def sample_config_def)
  have sz: "st_size sample_world foo_c = Inr 54" "st_size sample_world big_c = Inr 55"
    by (simp_all add: sample_world_def sample_paths)
  have mx: "max_file_size sample_config = 54"
    by (simp add: sample_config_def)
  from get_c_files_size_cap [OF sample_files cands(1) excl(1) sz(1)] mx
  have a: "foo_c \<in> set [foo_c, gone_c]" by simp
  from get_c_files_size_cap [OF sample_files cands(2) excl(2) sz(2)] mx
  have b: "big_c \<notin> set [foo_c, gone_c]" by simp
  from sample_files sz mx a b show ?thesis by blast
qed

section \<open>Scanning one file: what the loops compute\<close>

text \<open>The findings one pattern contributes when nothing is raised.\<close>

lemma check_pattern_Inr:
  assumes "check_pattern lib content lines fp name rc p = (lg, Inr fs)"
  shows "fs = (case re_finditer lib p content {IGNORECASE, MULTILINE} of
                 Matches ms \<Rightarrow> map (make_finding content lines fp name rc p) ms
               | _ \<Rightarrow> [])"
  using assms by (auto simp: check_pattern_def split: re_result.splits)

lemma check_patterns_Inr:
  assumes "check_patterns lib content lines fp name rc ps = (lg, Inr fs)"
  shows "fs = concat (map (\<lambda>p. case re_finditer lib p content {IGNORECASE, MULTILINE} of
                               Matches ms \<Rightarrow> map (make_finding content lines fp name rc p) ms
                             | _ \<Rightarrow> []) ps)"
  using assms
proof (induction ps arbitrary: lg fs)
  case Nil
  then show ?case by simp
next
  case (Cons p ps)
  from Cons.prems obtain lg1 fs1 lg2 fs2 where
    a: "check_pattern lib content lines fp name rc p = (lg1, Inr fs1)"
    and b: "check_patterns lib content lines fp name rc ps = (lg2, Inr fs2)"
    and c: "fs = fs1 @ fs2"
    by (auto split: prod.splits sum.splits)
  from check_pattern_Inr [OF a] Cons.IH [OF b] c show ?case by simp
qed

lemma check_rules_Inr:
  assumes "check_rules lib cfg content lines fp rules = (lg, Inr fs)"
    and "file_dir_of cfg fp = Inr d"
  shows "fs = concat (map (\<lambda>(name, rc).
           if rule_enabled rc \<and> in_target_directories rc d
           then concat (map (\<lambda>p. case re_finditer lib p content {IGNORECASE, MULTILINE} of
                                    Matches ms \<Rightarrow> map (make_finding content lines fp name rc p) ms
                                  | _ \<Rightarrow> [])
                          (rule_patterns rc))
           else []) rules)"
  using assms(1)
proof (induction rules arbitrary: lg fs)
  case Nil
  then show ?case by simp
next
  case (Cons r rules)
  obtain name rc where r: "r = (name, rc)" by (cases r)
  show ?case
  proof (cases "rule_enabled rc \<and> in_target_directories rc d")
    case False
    with Cons.prems have "check_rules lib cfg content lines fp rules = (lg, Inr fs)"
      by (auto simp: r assms(2) split: if_splits)
    from Cons.IH [OF this] False show ?thesis by (auto simp: r)
  next
    case True
    with Cons.prems assms(2) obtain lg1 fs1 lg2 fs2 where
      a: "check_patterns lib content lines fp name rc (rule_patterns rc) = (lg1, Inr fs1)"
      and b: "check_rules lib cfg content lines fp rules = (lg2, Inr fs2)"
      and c: "fs = fs1 @ fs2"
      by (auto simp: r split: prod.splits sum.splits)
    from check_patterns_Inr [OF a] Cons.IH [OF b] c True show ?thesis by (simp add: r)
  qed
qed

lemma check_rules_no_dir:
  assumes "check_rules lib cfg content lines fp rules = (lg, Inr fs)"
    and "file_dir_of cfg fp = Inl e"
  shows "fs = []"
  using assms by (induction rules arbitrary: lg fs) (auto split: if_splits)

lemma analyze_file_mem:
  assumes "read_text w fp = Inr content"
    and "analyze_file lib w cfg fp = (lg, Inr fs)"
    and "f \<in> set fs"
  shows "\<exists>name rc p matches m.
           (name, rc) \<in> set (detection_rules cfg) \<and> rule_enabled rc \<and>
           p \<in> set (rule_patterns rc) \<and>
           re_finditer lib p content {IGNORECASE, MULTILINE} = Matches matches \<and>
           m \<in> set matches \<and>
           f = make_finding content (split NL content) fp name rc p m"
proof (cases "file_dir_of cfg fp")
  case (Inl e)
  from assms(1,2) have "check_rules lib cfg content (split NL content) fp (detection_rules cfg) = (lg, Inr fs)"
    by (simp add: analyze_file_def)
  from check_rules_no_dir [OF this Inl] assms(3) show ?thesis by simp
next
  case (Inr d)
  from assms(1,2) have "check_rules lib cfg content (split NL content) fp (detection_rules cfg) = (lg, Inr fs)"
    by (simp add: analyze_file_def)
  note fs = check_rules_Inr [OF this Inr]
  define blk where "blk name rc p =
     (case re_finditer lib p content {IGNORECASE, MULTILINE} of
        Matches ms \<Rightarrow> map (make_finding content (split NL content) fp name rc p) ms
      | _ \<Rightarrow> [])" for name rc p
  from fs have "fs = concat (map (\<lambda>(name, rc).
           if rule_enabled rc \<and> in_target_directories rc d
           then concat (map (blk name rc) (rule_patterns rc)) else []) (detection_rules cfg))"
    unfolding blk_def .
  with assms(3) obtain name rc p where
    r: "(name, rc) \<in> set (detection_rules cfg)" "rule_enabled rc" "p \<in> set (rule_patterns rc)"
    and "f \<in> set (blk name rc p)"
    by (auto split: if_splits)
  then obtain ms m where "re_finditer lib p content {IGNORECASE, MULTILINE} = Matches ms"
    "m \<in> set ms" "f = make_finding content (split NL content) fp name rc p m"
    by (cases "re_finditer lib p content {IGNORECASE, MULTILINE}") (auto simp: blk_def)
  with r show ?thesis by blast
qed

lemma length_split: "length (split sep s) = count_list s sep + 1"
  by (induction s) (auto split: list.splits)

lemma count_list_take_le: "count_list (take k s) x \<le> count_list s x"
proof (induction s arbitrary: k)
  case Nil
  then show ?case by simp
next
  case (Cons c cs)
  then show ?case by (cases k) (auto intro: le_SucI)
qed

lemma drop_take_nth: "b \<le> length xs \<Longrightarrow> drop a (take b xs) = map ((!) xs) [a..<b]"
  by (auto simp: list_eq_iff_nth_eq)

lemma map_pred_upt:
  assumes "0 < a"
  shows "map (\<lambda>i. xs ! (i - 1)) [a ..< b + 1] = map ((!) xs) [a - 1 ..< b]"
proof -
  from assms have "[a ..< b + 1] = map Suc [a - 1 ..< b]"
    by (simp add: map_Suc_upt del: upt_Suc)
  then show ?thesis by (simp add: comp_def del: upt_Suc)
qed

lemma get_context_lines_window:
  assumes "1 \<le> line" "line \<le> int (length lines)"
  shows "get_context_lines lines (line - 1) 3 =
         lines_from_through lines (max 1 (line - 3)) (min (int (length lines)) (line + 3))"
proof -
  let ?n = "length lines"
  let ?a = "nat (max 1 (line - 3))" and ?b = "nat (min (int ?n) (line + 3))"
  have b: "?b \<le> ?n" by simp
  have a: "0 < ?a" by simp
  have "get_context_lines lines (line - 1) 3 = drop (?a - 1) (take ?b lines)"
    using assms
    by (auto simp: get_context_lines_def py_slice_def slice_index_def Let_def min_def max_def
        nat_diff_distrib intro!: arg_cong2[where f=drop] arg_cong2[where f=take])
  also have "\<dots> = map ((!) lines) [?a - 1 ..< ?b]"
    using b by (rule drop_take_nth)
  also have "\<dots> = map (\<lambda>i. lines ! (i - 1)) [?a ..< ?b + 1]"
    using a by (rule map_pred_upt [symmetric])
  finally show ?thesis by (simp add: lines_from_through_def)
qed

subsection \<open>The example file, evaluated\<close>

lemma sample_read: "read_text sample_world foo_c = Inr foo_text"
  by code_simp

lemma sample_run:
  "analyze_file sample_lib sample_world sample_config foo_c =
     ([WarningInvalidRegex (str ''('') paren_message], Inr foo_findings)"
  by code_simp

lemma sample_rules_distinct: "distinct (map fst (detection_rules sample_config))"
  by (simp add: sample_config_def str_def)

lemma sample_file_dir: "file_dir_of sample_config foo_c = Inr (str ''kernel'')"
  by code_simp

lemma sample_lock_matches:
  "re_finditer sample_lib (str ''lock'') foo_text {IGNORECASE, MULTILINE} =
     Matches [\<lparr>m_start = 9, m_group0 = str ''lock''\<rparr>, \<lparr>m_start = 20, m_group0 = str ''Lock''\<rparr>]"
  by code_simp

section \<open>Line numbers and context\<close>

text \<open>
  C3. Every finding that \<open>analyze_file\<close> emits comes from a match of its pattern in the
  text of the file; its line is one plus the number of newlines before the start of the
  match, so it lies between 1 and the number of lines of the text; its context consists of
  the lines \<open>max 1 (line - 3)\<close> through \<open>min n (line + 3)\<close> of the file, \<open>n\<close> being the
  number of lines.
\<close>

theorem analyze_file_line_and_context:
  assumes "read_text w file_path = Inr content"
    and "analyze_file lib w cfg file_path = (lg, Inr fs)"
    and "f \<in> set fs"
  shows "\<exists>matches m.
           re_finditer lib (f_pattern f) content {IGNORECASE, MULTILINE} = Matches matches \<and>
           m \<in> set matches \<and> f_match f = m_group0 m \<and>
           f_line f = 1 + int (count_list (take (m_start m) content) NL) \<and>
           1 \<le> f_line f \<and> f_line f \<le> int (length (split NL content)) \<and>
           f_context f =
             lines_from_through (split NL content) (max 1 (f_line f - 3))
               (min (int (length (split NL content))) (f_line f + 3))"
proof -
  from analyze_file_mem [OF assms] obtain name rc p matches m where
    m: "re_finditer lib p content {IGNORECASE, MULTILINE} = Matches matches" "m \<in> set matches"
    and f: "f = make_finding content (split NL content) file_path name rc p m"
    by blast
  let ?line = "1 + int (count_list (take (m_start m) content) NL)"
  have line: "f_line f = ?line" and pat: "f_pattern f = p" and mt: "f_match f = m_group0 m"
    and ctx: "f_context f = get_context_lines (split NL content) (?line - 1) 3"
    by (simp_all add: f make_finding_def Let_def)
  have lo: "1 \<le> ?line" by simp
  have hi: "?line \<le> int (length (split NL content))"
    using count_list_take_le [of "m_start m" content NL] by (simp add: length_split)
  from get_context_lines_window [OF lo hi] ctx line
  have "f_context f = lines_from_through (split NL content) (max 1 (f_line f - 3))
               (min (int (length (split NL content))) (f_line f + 3))" by simp
  with m pat mt line lo hi show ?thesis by auto
qed

theorem analyze_file_line_and_context_witness:
  "read_text sample_world foo_c = Inr foo_text \<and>
   snd (analyze_file sample_lib sample_world sample_config foo_c) = Inr foo_findings \<and>
   foo_findings ! 3 \<in> set foo_findings \<and>
   f_line (foo_findings ! 3) = 3 \<and>
   f_context (foo_findings ! 3) = lines_from_through (split NL foo_text) 1 3 \<and>
   (\<exists>matches m.
      re_finditer sample_lib (f_pattern (foo_findings ! 3)) foo_text {IGNORECASE, MULTILINE}
        = Matches matches \<and>
      m \<in> set matches \<and> f_match (foo_findings ! 3) = m_group0 m \<and>
      f_line (foo_findings ! 3) = 1 + int (count_list (take (m_start m) foo_text) NL) \<and>
      1 \<le> f_line (foo_findings ! 3) \<and>
      f_line (foo_findings ! 3) \<le> int (length (split NL foo_text)) \<and>
      f_context (foo_findings ! 3) =
        lines_from_through (split NL foo_text) (max 1 (f_line (foo_findings ! 3) - 3))
          (min (int (length (split NL foo_text))) (f_line (foo_findings ! 3) + 3)))"
proof -
  have mem: "foo_findings ! 3 \<in> set foo_findings"
    by (simp add: foo_findings_def)
  have ln: "f_line (foo_findings ! 3) = 3"
    by (simp add: foo_findings_def foo_finding_def)
  have cx: "f_context (foo_findings ! 3) = lines_from_through (split NL foo_text) 1 3"
    by code_simp
  from analyze_file_line_and_context [OF sample_read sample_run mem] sample_read sample_run
    mem ln cx
  show ?thesis by simp
qed

lemma make_finding_fields:
  "f_rule (make_finding content lines fp name rc p m) = name"
  "f_pattern (make_finding content lines fp name rc p m) = p"
  "f_match (make_finding content lines fp name rc p m) = m_group0 m"
  "f_severity (make_finding content lines fp name rc p m) =
     (case severity rc of None \<Rightarrow> str ''medium'' | Some s \<Rightarrow> s)"
  by (simp_all add: make_finding_def Let_def)

lemma make_finding_fill:
  "make_finding content lines fp name (fill_severity rc) p = make_finding content lines fp name rc p"
  by (rule ext) (simp add: make_finding_def fill_severity_def Let_def split: option.splits)

lemma check_pattern_fill:
  "check_pattern lib content lines fp name (fill_severity rc) p =
   check_pattern lib content lines fp name rc p"
  unfolding check_pattern_def make_finding_fill ..

lemma check_patterns_fill:
  "check_patterns lib content lines fp name (fill_severity rc) ps =
   check_patterns lib content lines fp name rc ps"
  by (induction ps) (simp_all add: check_pattern_fill)

lemma check_rules_fill:
  assumes "file_dir_of cfg' fp = file_dir_of cfg fp"
  shows "check_rules lib cfg' content lines fp (map (\<lambda>(n, rc). (n, fill_severity rc)) rules) =
   check_rules lib cfg content lines fp rules"
proof (induction rules)
  case Nil then show ?case by simp
next
  case (Cons r rules)
  obtain n rc where r: "r = (n, rc)" by (cases r)
  have e: "rule_enabled (fill_severity rc) = rule_enabled rc"
    "\<And>d. in_target_directories (fill_severity rc) d = in_target_directories rc d"
    "rule_patterns (fill_severity rc) = rule_patterns rc"
    by (simp_all add: rule_enabled_def in_target_directories_def rule_patterns_def fill_severity_def)
  show ?case using Cons assms
    by (cases "file_dir_of cfg fp") (simp_all add: r e check_patterns_fill)
qed

section \<open>The default severity\<close>

text \<open>
  C10. The findings of a rule carry the severity configured for the rule, and
  \<open>medium\<close> when the rule configures none; leaving the severity out gives the same
  log and the same findings as writing \<open>medium\<close>.
\<close>

theorem analyze_file_default_severity:
  assumes "analyze_file lib w cfg file_path = (lg, Inr fs)"
    and "f \<in> set fs"
    and "distinct (map fst (detection_rules cfg))"
    and "(f_rule f, rule_cfg) \<in> set (detection_rules cfg)"
  shows "f_severity f = (case severity rule_cfg of None \<Rightarrow> str ''medium'' | Some s \<Rightarrow> s) \<and>
         analyze_file lib w
           (cfg\<lparr> detection_rules := map (\<lambda>(n, rc). (n, fill_severity rc)) (detection_rules cfg) \<rparr>)
           file_path
         = analyze_file lib w cfg file_path"
proof
  show "f_severity f = (case severity rule_cfg of None \<Rightarrow> str ''medium'' | Some s \<Rightarrow> s)"
  proof (cases "read_text w file_path")
    case (Inl e)
    with assms(1,2) show ?thesis by (simp add: analyze_file_def)
  next
    case (Inr content)
    from analyze_file_mem [OF Inr assms(1,2)] obtain name rc p m where
      r: "(name, rc) \<in> set (detection_rules cfg)"
      and f: "f = make_finding content (split NL content) file_path name rc p m" by blast
    from f have "f_rule f = name" by (simp add: make_finding_fields)
    with r assms(3,4) have "rc = rule_cfg" by (metis eq_key_imp_eq_value)
    with f show ?thesis by (simp add: make_finding_fields)
  qed
next
  have "file_dir_of (cfg\<lparr> detection_rules := map (\<lambda>(n, rc). (n, fill_severity rc)) (detection_rules cfg) \<rparr>) file_path
        = file_dir_of cfg file_path"
    by (simp add: file_dir_of_def repository_dir_def)
  from check_rules_fill [OF this, of lib _ _ "detection_rules cfg"] show "analyze_file lib w
           (cfg\<lparr> detection_rules := map (\<lambda>(n, rc). (n, fill_severity rc)) (detection_rules cfg) \<rparr>)
           file_path = analyze_file lib w cfg file_path"
    by (cases "read_text w file_path") (simp_all add: analyze_file_def)
qed

theorem analyze_file_default_severity_witness:
  "analyze_file sample_lib sample_world sample_config foo_c =
     ([WarningInvalidRegex (str ''('') paren_message], Inr foo_findings) \<and>
   foo_findings ! 3 \<in> set foo_findings \<and>
   distinct (map fst (detection_rules sample_config)) \<and>
   (f_rule (foo_findings ! 3), memory_rule) \<in> set (detection_rules sample_config) \<and>
   severity memory_rule = None \<and>
   f_severity (foo_findings ! 3) = str ''medium''"
proof -
  have mem: "foo_findings ! 3 \<in> set foo_findings"
    by (simp add: foo_findings_def)
  have rule: "(f_rule (foo_findings ! 3), memory_rule) \<in> set (detection_rules sample_config)"
    by (simp add: foo_findings_def foo_finding_def sample_config_def)
  have none: "severity memory_rule = None"
    by (simp add: memory_rule_def)
  from analyze_file_default_severity [OF sample_run mem sample_rules_distinct rule] none
  have "f_severity (foo_findings ! 3) = str ''medium''" by simp
  with sample_run mem sample_rules_distinct rule none show ?thesis by blast
qed

section \<open>Which findings a file has\<close>

text \<open>
  What \<open>analyze_file\<close> returns for a file under the directory named after the
  configured repository: in this order, one finding for every match of every pattern of
  every rule that is enabled and has a target directory occurring in the directory of the
  file relative to that directory.
\<close>

lemma analyze_file_Inr:
  assumes "read_text w fp = Inr content"
    and "file_dir_of cfg fp = Inr d"
    and "analyze_file lib w cfg fp = (lg, Inr fs)"
  shows "fs = concat (map (\<lambda>(name, rc).
           if rule_enabled rc \<and> in_target_directories rc d
           then concat (map (\<lambda>p. case re_finditer lib p content {IGNORECASE, MULTILINE} of
                                    Matches ms \<Rightarrow>
                                      map (make_finding content (split NL content) fp name rc p) ms
                                  | _ \<Rightarrow> [])
                          (rule_patterns rc))
           else []) (detection_rules cfg))"
proof -
  from assms(1,3)
  have "check_rules lib cfg content (split NL content) fp (detection_rules cfg) = (lg, Inr fs)"
    by (simp add: analyze_file_def)
  from check_rules_Inr [OF this assms(2)] show ?thesis .
qed

text \<open>
  C2. The claim takes the directory of the file relative to the corpus root, the
  directory that is scanned. \<open>analyze_file\<close> takes it relative to the directory named
  after the configured repository URL instead. With the tree at \<open>/data/linux\<close> the
  directory of \<open>kernel/foo.c\<close> relative to the corpus root is \<open>kernel\<close>, the rule
  \<open>concurrency\<close> is enabled, its target directory occurs in \<open>kernel\<close> and its pattern
  \<open>lock\<close> matches the text twice: the claim gives the file findings. The code raises
  \<open>ValueError\<close> and returns none.
\<close>

theorem analyze_file_outside_repository_dir:
  "moved_foo_c \<in> set (rglob_c moved_world (Path (str ''/data/linux''))) \<and>
   relative_to (parent moved_foo_c) (Path (str ''/data/linux'')) = Inr [str ''kernel''] \<and>
   path_str [str ''kernel''] = str ''kernel'' \<and>
   read_text moved_world moved_foo_c = Inr foo_text \<and>
   rule_enabled concurrency_rule \<and>
   in_target_directories concurrency_rule (str ''kernel'') \<and>
   re_finditer sample_lib (str ''lock'') foo_text {IGNORECASE, MULTILINE} =
     Matches [\<lparr>m_start = 9, m_group0 = str ''lock''\<rparr>, \<lparr>m_start = 20, m_group0 = str ''Lock''\<rparr>] \<and>
   analyze_file sample_lib moved_world sample_config moved_foo_c = ([], Inl ValueError)"
proof -
  have a: "moved_foo_c \<in> set (rglob_c moved_world (Path (str ''/data/linux'')))" by code_simp
  have b: "relative_to (parent moved_foo_c) (Path (str ''/data/linux'')) = Inr [str ''kernel'']"
    by code_simp
  have c: "path_str [str ''kernel''] = str ''kernel''" by code_simp
  have d: "read_text moved_world moved_foo_c = Inr foo_text" by code_simp
  have e: "rule_enabled concurrency_rule" by (simp add: rule_enabled_def concurrency_rule_def)
  have f: "in_target_directories concurrency_rule (str ''kernel'')" by code_simp
  have g: "analyze_file sample_lib moved_world sample_config moved_foo_c = ([], Inl ValueError)"
    by code_simp
  from a b c d e f g sample_lock_matches show ?thesis by blast
qed

section \<open>Patterns that do not compile\<close>

text \<open>
  C5. The claim has a pattern that fails skipped, with the other patterns of the file
  still applied. The pattern \<open>a{4294967296}\<close> does not compile, but what \<open>re\<close> raises
  for it is \<open>OverflowError\<close>, not \<open>re.error\<close>, and the pattern loop catches
  \<open>re.error\<close> alone. Without the pattern the file has its four findings; with the
  pattern, \<open>analyze_file\<close> raises \<open>OverflowError\<close> and the findings of the other
  patterns and rules are lost.
\<close>

theorem analyze_file_overflow_pattern:
  "re_finditer sample_lib (str ''a{4294967296}'') foo_text {IGNORECASE, MULTILINE}
     = Raises OverflowError \<and>
   analyze_file sample_lib sample_world plain_config foo_c = ([], Inr foo_findings) \<and>
   analyze_file sample_lib sample_world overflow_config foo_c = ([], Inl OverflowError)"
proof -
  have a: "re_finditer sample_lib (str ''a{4294967296}'') foo_text {IGNORECASE, MULTILINE}
     = Raises OverflowError" by code_simp
  have b: "analyze_file sample_lib sample_world plain_config foo_c = ([], Inr foo_findings)"
    by code_simp
  have c: "analyze_file sample_lib sample_world overflow_config foo_c = ([], Inl OverflowError)"
    by code_simp
  from a b c show ?thesis by blast
qed

section \<open>The order of the findings of a file\<close>














end
